theory Spec2Isabelle
  imports Main
begin

section \<open>Values, exceptions and the host\<close>

text \<open>
  The library is generic in TypeScript, but its types are erased: at run time a payload, an
  \<open>other\<close> argument or the result of a callback is just a JavaScript value. The run-time
  checks of \<open>result.ts\<close> (\<open>typeof\<close>, \<open>=== null\<close>, \<open>instanceof Result\<close>) look at such
  values, so the model has one type of values, with the two containers among them.

  \<open>Number\<close> carries an integer and \<open>Object\<close> a reference: the library never computes on a
  payload. A function that the library may call is an \<open>arg\<close>, below; a function object that
  is only stored as a payload is covered by \<open>Object\<close> (the library compares the \<open>typeof\<close>
  of a payload with \<open>undefined\<close>, \<open>boolean\<close> and \<open>string\<close> only, which tell no object
  from a function). Containers are compared by their content: object identity is not
  modelled, and the one \<open>Nothing\<close> that \<open>Nothing.make\<close> hands out is the value \<open>Nothing\<close>.
\<close>

datatype val =
    Undefined
  | Null
  | Boolean bool
  | Number int
  | String string
  | Object nat
  | MaybeV Maybe
  | ResultV Result
and Maybe =
    Nothing
  | Something val
and Result =
    Failure val
  | Success val

text \<open>
  Modelled from the spec: the classes \<open>ExpectationError\<close>, \<open>ImproperUnwrapError\<close> and
  \<open>UnreachableCodeError\<close> of \<open>src/error/\<close> are not among the sources; each is an error
  that carries the message given to its constructor verbatim.

  The other exceptions that can leave a method: \<open>AssertionError\<close> is what \<open>ok\<close> of
  \<open>node:assert/strict\<close> throws, \<open>TypeError\<close> what the language throws when a non-function
  is called, \<open>Thrown v\<close> the value \<open>v\<close> thrown by code of the caller (a callback, a
  stringifier).
\<close>

datatype exn =
    AssertionError
  | TypeError
  | ExpectationError val
  | ImproperUnwrapError string
  | UnreachableCodeError string
  | Thrown val

text \<open>
  \<open>utilities/assert.ts\<close> binds \<open>assert\<close> once, when the module is loaded: to \<open>ok\<close> of
  \<open>node:assert/strict\<close> if that module can be imported, and to the function that does
  nothing otherwise. The host records which of the two happened.

  \<open>maybe.ts\<close> imports \<open>node:util\<close> statically and \<open>result.ts\<close> imports \<open>maybe.ts\<close>:
  the library loads only where \<open>node:util\<close> is there, so a host has no field for it.
\<close>

record host =
  assert_strict_imported :: bool

text \<open>
  Two hosts on which the library loads: Node.js (the package asks for version 20 or newer),
  and a host that has \<open>node:util\<close> but where the import of \<open>node:assert/strict\<close> fails (a
  loader that refuses the module, a runtime that does not ship it).
\<close>

abbreviation node_host :: host where
  "node_host \<equiv> \<lparr>assert_strict_imported = True\<rparr>"

abbreviation host_without_assert :: host where
  "host_without_assert \<equiv> \<lparr>assert_strict_imported = False\<rparr>"

definition assert :: "host \<Rightarrow> bool \<Rightarrow> exn + unit" where
  "assert h condition =
     (if assert_strict_imported h
      then (if condition then Inr () else Inl AssertionError)
      else Inr ())"

fun typeof :: "val \<Rightarrow> string" where
  "typeof Undefined = ''undefined''"
| "typeof Null = ''object''"
| "typeof (Boolean b) = ''boolean''"
| "typeof (Number n) = ''number''"
| "typeof (String s) = ''string''"
| "typeof (Object r) = ''object''"
| "typeof (MaybeV m) = ''object''"
| "typeof (ResultV r) = ''object''"

text \<open>The conversion of a condition \<open>c ? a : b\<close> to a boolean.\<close>

fun truthy :: "val \<Rightarrow> bool" where
  "truthy Undefined = False"
| "truthy Null = False"
| "truthy (Boolean b) = b"
| "truthy (Number n) = (n \<noteq> 0)"
| "truthy (String s) = (s \<noteq> [])"
| "truthy (Object r) = True"
| "truthy (MaybeV m) = True"
| "truthy (ResultV r) = True"

text \<open>\<open>isMaybe\<close> and \<open>isResult\<close>: \<open>value instanceof Maybe\<close>, \<open>value instanceof Result\<close>.\<close>

fun isMaybe :: "val \<Rightarrow> bool" where
  "isMaybe (MaybeV m) = True"
| "isMaybe v = False"

fun isResult :: "val \<Rightarrow> bool" where
  "isResult (ResultV r) = True"
| "isResult v = False"

subsection \<open>Callbacks\<close>

text \<open>
  A function of the caller takes a value and may change the world of the caller (\<open>'s\<close>: a
  counter, a log, whatever a spy records); it returns a value (\<open>Inr\<close>) or throws one
  (\<open>Inl\<close>). What is passed where a method expects a function is a function or, the types
  being erased, some other value.
\<close>

type_synonym 's fn = "val \<Rightarrow> 's \<Rightarrow> (val + val) \<times> 's"

datatype 's arg =
    Callable "val \<Rightarrow> 's \<Rightarrow> (val + val) \<times> 's"
  | NotCallable val

fun typeof_arg :: "'s arg \<Rightarrow> string" where
  "typeof_arg (Callable g) = ''function''"
| "typeof_arg (NotCallable v) = typeof v"

text \<open>The call \<open>f(x)\<close>: an exception of \<open>f\<close> propagates, a non-function cannot be called.\<close>

fun call :: "'s arg \<Rightarrow> val \<Rightarrow> 's \<Rightarrow> (exn + val) \<times> 's" where
  "call (Callable g) x s =
     (case g x s of
        (Inl t, s') \<Rightarrow> (Inl (Thrown t), s')
      | (Inr y, s') \<Rightarrow> (Inr y, s'))"
| "call (NotCallable v) x s = (Inl TypeError, s)"

text \<open>Sequencing of two steps, the second run on the result of the first: \<open>a.m1(..).m2(..)\<close>.\<close>

definition and_then :: "('s \<Rightarrow> (exn + 'a) \<times> 's) \<Rightarrow> ('a \<Rightarrow> 's \<Rightarrow> (exn + 'b) \<times> 's) \<Rightarrow> 's \<Rightarrow> (exn + 'b) \<times> 's" where
  "and_then m k s =
     (case m s of
        (Inl e, s') \<Rightarrow> (Inl e, s')
      | (Inr a, s') \<Rightarrow> k a s')"

text \<open>The same for methods that call no function of the caller.\<close>

definition then_do :: "exn + 'a \<Rightarrow> ('a \<Rightarrow> exn + 'b) \<Rightarrow> exn + 'b" where
  "then_do outcome k = (case outcome of Inl e \<Rightarrow> Inl e | Inr a \<Rightarrow> k a)"

text \<open>The arrow function \<open>x => g(f(x))\<close>.\<close>

definition compose :: "'s fn \<Rightarrow> 's fn \<Rightarrow> 's fn" where
  "compose f g x s =
     (case f x s of
        (Inl t, s') \<Rightarrow> (Inl t, s')
      | (Inr y, s') \<Rightarrow> g y s')"

section \<open>maybe.ts\<close>

text \<open>
  Each public method of the abstract class \<open>Maybe\<close> forwards to the protected method of the
  same name, which \<open>Nothing\<close> and \<open>Something\<close> implement: one equation per subclass.
  No method of \<open>Maybe\<close> checks its argument.
\<close>

definition Nothing_make :: Maybe where
  "Nothing_make = Nothing"

definition Something_make :: "val \<Rightarrow> Maybe" where
  "Something_make v = Something v"

definition nothing :: Maybe where
  "nothing = Nothing_make"

definition something :: "val \<Rightarrow> Maybe" where
  "something v = Something_make v"

fun Maybe_and :: "Maybe \<Rightarrow> val \<Rightarrow> val" where
  "Maybe_and Nothing other = MaybeV Nothing"
| "Maybe_and (Something v) other = other"

fun Maybe_andThen :: "Maybe \<Rightarrow> 's arg \<Rightarrow> 's \<Rightarrow> (exn + val) \<times> 's" where
  "Maybe_andThen Nothing f s = (Inr (MaybeV Nothing), s)"
| "Maybe_andThen (Something v) f s = call f v s"

fun Maybe_expect :: "Maybe \<Rightarrow> val \<Rightarrow> exn + val" where
  "Maybe_expect Nothing message = Inl (ExpectationError message)"
| "Maybe_expect (Something v) message = Inr v"

fun Maybe_filter :: "Maybe \<Rightarrow> 's arg \<Rightarrow> 's \<Rightarrow> (exn + Maybe) \<times> 's" where
  "Maybe_filter Nothing predicate s = (Inr Nothing, s)"
| "Maybe_filter (Something v) predicate s =
     (case call predicate v s of
        (Inl e, s') \<Rightarrow> (Inl e, s')
      | (Inr b, s') \<Rightarrow> (Inr (if truthy b then Something v else Nothing_make), s'))"

fun Maybe_inspect :: "Maybe \<Rightarrow> 's arg \<Rightarrow> 's \<Rightarrow> (exn + Maybe) \<times> 's" where
  "Maybe_inspect Nothing f s = (Inr Nothing, s)"
| "Maybe_inspect (Something v) f s =
     (case call f v s of
        (Inl e, s') \<Rightarrow> (Inl e, s')
      | (Inr u, s') \<Rightarrow> (Inr (Something v), s'))"

fun Maybe_isNothing :: "Maybe \<Rightarrow> bool" where
  "Maybe_isNothing Nothing = True"
| "Maybe_isNothing (Something v) = False"

fun Maybe_isNothingOr :: "Maybe \<Rightarrow> 's arg \<Rightarrow> 's \<Rightarrow> (exn + val) \<times> 's" where
  "Maybe_isNothingOr Nothing predicate s = (Inr (Boolean True), s)"
| "Maybe_isNothingOr (Something v) predicate s = call predicate v s"

fun Maybe_isSomething :: "Maybe \<Rightarrow> bool" where
  "Maybe_isSomething Nothing = False"
| "Maybe_isSomething (Something v) = True"

fun Maybe_isSomethingAnd :: "Maybe \<Rightarrow> 's arg \<Rightarrow> 's \<Rightarrow> (exn + val) \<times> 's" where
  "Maybe_isSomethingAnd Nothing predicate s = (Inr (Boolean False), s)"
| "Maybe_isSomethingAnd (Something v) predicate s = call predicate v s"

fun Maybe_map :: "Maybe \<Rightarrow> 's arg \<Rightarrow> 's \<Rightarrow> (exn + Maybe) \<times> 's" where
  "Maybe_map Nothing f s = (Inr Nothing, s)"
| "Maybe_map (Something v) f s =
     (case call f v s of
        (Inl e, s') \<Rightarrow> (Inl e, s')
      | (Inr value, s') \<Rightarrow> (Inr (Something_make value), s'))"

fun Maybe_or :: "Maybe \<Rightarrow> val \<Rightarrow> val" where
  "Maybe_or Nothing other = other"
| "Maybe_or (Something v) other = MaybeV (Something v)"

fun Maybe_unwrap :: "Maybe \<Rightarrow> exn + val" where
  "Maybe_unwrap Nothing = Inl (ImproperUnwrapError ''Attempted to unwrap a `Nothing` value'')"
| "Maybe_unwrap (Something v) = Inr v"

section \<open>result.ts\<close>

text \<open>
  The factories. \<open>failure\<close> checks its argument, \<open>success\<close> takes any value.
\<close>

definition Failure_make :: "val \<Rightarrow> Result" where
  "Failure_make error = Failure error"

definition Success_make :: "val \<Rightarrow> Result" where
  "Success_make v = Success v"

definition failure :: "host \<Rightarrow> val \<Rightarrow> exn + Result" where
  "failure h error =
     (case assert h (typeof error \<noteq> ''undefined'') of
        Inl x \<Rightarrow> Inl x
      | Inr u \<Rightarrow>
          (case assert h (error \<noteq> Null) of
             Inl x \<Rightarrow> Inl x
           | Inr u' \<Rightarrow> Inr (Failure_make error)))"

definition success :: "val \<Rightarrow> Result" where
  "success v = Success_make v"

text \<open>
  The protected methods, one equation for \<open>Failure\<close> and one for \<open>Success\<close>. The three
  of them that check something with \<open>assert\<close> take the host.
\<close>

fun Result__and :: "Result \<Rightarrow> val \<Rightarrow> val" where
  "Result__and (Failure e) other = ResultV (Failure e)"
| "Result__and (Success v) other = other"

fun Result__andThen :: "host \<Rightarrow> Result \<Rightarrow> 's arg \<Rightarrow> 's \<Rightarrow> (exn + val) \<times> 's" where
  "Result__andThen h (Failure e) f s = (Inr (ResultV (Failure e)), s)"
| "Result__andThen h (Success v) f s =
     (case call f v s of
        (Inl x, s') \<Rightarrow> (Inl x, s')
      | (Inr value, s') \<Rightarrow>
          (case assert h (isResult value) of
             Inl x \<Rightarrow> (Inl x, s')
           | Inr u \<Rightarrow> (Inr value, s')))"

fun Result__expect :: "Result \<Rightarrow> val \<Rightarrow> exn + val" where
  "Result__expect (Failure e) message = Inl (ExpectationError message)"
| "Result__expect (Success v) message = Inr v"

fun Result__expectFailure :: "Result \<Rightarrow> val \<Rightarrow> exn + val" where
  "Result__expectFailure (Failure e) message = Inr e"
| "Result__expectFailure (Success v) message = Inl (ExpectationError message)"

fun Result__inspect :: "Result \<Rightarrow> 's arg \<Rightarrow> 's \<Rightarrow> (exn + Result) \<times> 's" where
  "Result__inspect (Failure e) f s = (Inr (Failure e), s)"
| "Result__inspect (Success v) f s =
     (case call f v s of
        (Inl x, s') \<Rightarrow> (Inl x, s')
      | (Inr u, s') \<Rightarrow> (Inr (Success v), s'))"

fun Result__inspectFailure :: "Result \<Rightarrow> 's arg \<Rightarrow> 's \<Rightarrow> (exn + Result) \<times> 's" where
  "Result__inspectFailure (Failure e) f s =
     (case call f e s of
        (Inl x, s') \<Rightarrow> (Inl x, s')
      | (Inr u, s') \<Rightarrow> (Inr (Failure e), s'))"
| "Result__inspectFailure (Success v) f s = (Inr (Success v), s)"

fun Result__isFailureAnd :: "host \<Rightarrow> Result \<Rightarrow> 's arg \<Rightarrow> 's \<Rightarrow> (exn + val) \<times> 's" where
  "Result__isFailureAnd h (Failure e) predicate s =
     (case call predicate e s of
        (Inl x, s') \<Rightarrow> (Inl x, s')
      | (Inr isSatified, s') \<Rightarrow>
          (case assert h (typeof isSatified = ''boolean'') of
             Inl x \<Rightarrow> (Inl x, s')
           | Inr u \<Rightarrow> (Inr isSatified, s')))"
| "Result__isFailureAnd h (Success v) predicate s = (Inr (Boolean False), s)"

fun Result__isSuccessAnd :: "host \<Rightarrow> Result \<Rightarrow> 's arg \<Rightarrow> 's \<Rightarrow> (exn + val) \<times> 's" where
  "Result__isSuccessAnd h (Failure e) predicate s = (Inr (Boolean False), s)"
| "Result__isSuccessAnd h (Success v) predicate s =
     (case call predicate v s of
        (Inl x, s') \<Rightarrow> (Inl x, s')
      | (Inr isSatified, s') \<Rightarrow>
          (case assert h (typeof isSatified = ''boolean'') of
             Inl x \<Rightarrow> (Inl x, s')
           | Inr u \<Rightarrow> (Inr isSatified, s')))"

fun Result__map :: "Result \<Rightarrow> 's arg \<Rightarrow> 's \<Rightarrow> (exn + Result) \<times> 's" where
  "Result__map (Failure e) f s = (Inr (Failure e), s)"
| "Result__map (Success v) f s =
     (case call f v s of
        (Inl x, s') \<Rightarrow> (Inl x, s')
      | (Inr value, s') \<Rightarrow> (Inr (Success_make value), s'))"

fun Result__mapFailure :: "host \<Rightarrow> Result \<Rightarrow> 's arg \<Rightarrow> 's \<Rightarrow> (exn + Result) \<times> 's" where
  "Result__mapFailure h (Failure e) f s =
     (case call f e s of
        (Inl x, s') \<Rightarrow> (Inl x, s')
      | (Inr error, s') \<Rightarrow>
          (case assert h (typeof error \<noteq> ''undefined'') of
             Inl x \<Rightarrow> (Inl x, s')
           | Inr u \<Rightarrow>
               (case assert h (error \<noteq> Null) of
                  Inl x \<Rightarrow> (Inl x, s')
                | Inr u' \<Rightarrow> (Inr (Failure_make error), s'))))"
| "Result__mapFailure h (Success v) f s = (Inr (Success v), s)"

fun Result__or :: "Result \<Rightarrow> val \<Rightarrow> val" where
  "Result__or (Failure e) other = other"
| "Result__or (Success v) other = ResultV (Success v)"

text \<open>
  The public methods of the abstract class \<open>Result\<close>: the check of the argument, where
  there is one, then the protected method.
\<close>

definition Result_and :: "host \<Rightarrow> Result \<Rightarrow> val \<Rightarrow> exn + val" where
  "Result_and h r other =
     (case assert h (isResult other) of
        Inl x \<Rightarrow> Inl x
      | Inr u \<Rightarrow> Inr (Result__and r other))"

definition Result_andThen :: "host \<Rightarrow> Result \<Rightarrow> 's arg \<Rightarrow> 's \<Rightarrow> (exn + val) \<times> 's" where
  "Result_andThen h r f s =
     (case assert h (typeof_arg f = ''function'') of
        Inl x \<Rightarrow> (Inl x, s)
      | Inr u \<Rightarrow> Result__andThen h r f s)"

definition Result_expect :: "host \<Rightarrow> Result \<Rightarrow> val \<Rightarrow> exn + val" where
  "Result_expect h r message =
     (case assert h (typeof message = ''string'') of
        Inl x \<Rightarrow> Inl x
      | Inr u \<Rightarrow> Result__expect r message)"

definition Result_expectFailure :: "host \<Rightarrow> Result \<Rightarrow> val \<Rightarrow> exn + val" where
  "Result_expectFailure h r message =
     (case assert h (typeof message = ''string'') of
        Inl x \<Rightarrow> Inl x
      | Inr u \<Rightarrow> Result__expectFailure r message)"

fun Result_getFailure :: "Result \<Rightarrow> Maybe" where
  "Result_getFailure (Failure e) = something e"
| "Result_getFailure (Success v) = nothing"

fun Result_getSuccess :: "Result \<Rightarrow> Maybe" where
  "Result_getSuccess (Failure e) = nothing"
| "Result_getSuccess (Success v) = something v"

definition Result_inspect :: "host \<Rightarrow> Result \<Rightarrow> 's arg \<Rightarrow> 's \<Rightarrow> (exn + Result) \<times> 's" where
  "Result_inspect h r f s =
     (case assert h (typeof_arg f = ''function'') of
        Inl x \<Rightarrow> (Inl x, s)
      | Inr u \<Rightarrow> Result__inspect r f s)"

definition Result_inspectFailure :: "host \<Rightarrow> Result \<Rightarrow> 's arg \<Rightarrow> 's \<Rightarrow> (exn + Result) \<times> 's" where
  "Result_inspectFailure h r f s =
     (case assert h (typeof_arg f = ''function'') of
        Inl x \<Rightarrow> (Inl x, s)
      | Inr u \<Rightarrow> Result__inspectFailure r f s)"

fun Result_isFailure :: "Result \<Rightarrow> bool" where
  "Result_isFailure (Failure e) = True"
| "Result_isFailure (Success v) = False"

definition Result_isFailureAnd :: "host \<Rightarrow> Result \<Rightarrow> 's arg \<Rightarrow> 's \<Rightarrow> (exn + val) \<times> 's" where
  "Result_isFailureAnd h r predicate s =
     (case assert h (typeof_arg predicate = ''function'') of
        Inl x \<Rightarrow> (Inl x, s)
      | Inr u \<Rightarrow> Result__isFailureAnd h r predicate s)"

fun Result_isSuccess :: "Result \<Rightarrow> bool" where
  "Result_isSuccess (Failure e) = False"
| "Result_isSuccess (Success v) = True"

definition Result_isSuccessAnd :: "host \<Rightarrow> Result \<Rightarrow> 's arg \<Rightarrow> 's \<Rightarrow> (exn + val) \<times> 's" where
  "Result_isSuccessAnd h r predicate s =
     (case assert h (typeof_arg predicate = ''function'') of
        Inl x \<Rightarrow> (Inl x, s)
      | Inr u \<Rightarrow> Result__isSuccessAnd h r predicate s)"

definition Result_map :: "host \<Rightarrow> Result \<Rightarrow> 's arg \<Rightarrow> 's \<Rightarrow> (exn + Result) \<times> 's" where
  "Result_map h r f s =
     (case assert h (typeof_arg f = ''function'') of
        Inl x \<Rightarrow> (Inl x, s)
      | Inr u \<Rightarrow> Result__map r f s)"

definition Result_mapFailure :: "host \<Rightarrow> Result \<Rightarrow> 's arg \<Rightarrow> 's \<Rightarrow> (exn + Result) \<times> 's" where
  "Result_mapFailure h r f s =
     (case assert h (typeof_arg f = ''function'') of
        Inl x \<Rightarrow> (Inl x, s)
      | Inr u \<Rightarrow> Result__mapFailure h r f s)"

definition Result_or :: "host \<Rightarrow> Result \<Rightarrow> val \<Rightarrow> exn + val" where
  "Result_or h r other =
     (case assert h (isResult other) of
        Inl x \<Rightarrow> Inl x
      | Inr u \<Rightarrow> Inr (Result__or r other))"

fun Result_unwrap :: "Result \<Rightarrow> exn + val" where
  "Result_unwrap (Failure e) = Inl (ImproperUnwrapError ''Attempted to unwrap a `Failure` value'')"
| "Result_unwrap (Success v) = Inr v"

fun Result_unwrapFailure :: "Result \<Rightarrow> exn + val" where
  "Result_unwrapFailure (Failure e) = Inr e"
| "Result_unwrapFailure (Success v) = Inl (ImproperUnwrapError ''Attempted to unwrap a `Success` value'')"

text \<open>\<open>Maybe.getSuccessOr\<close>, which needs the factories of \<open>result.ts\<close>.\<close>

fun Maybe_getSuccessOr :: "host \<Rightarrow> Maybe \<Rightarrow> val \<Rightarrow> exn + Result" where
  "Maybe_getSuccessOr h Nothing error = failure h error"
| "Maybe_getSuccessOr h (Something v) error = Inr (success v)"

section \<open>Rendering\<close>

text \<open>
  The string methods that \<open>#convertToString\<close> uses. A string is a sequence of code units
  below 256; the white space of \<open>trim\<close> and \<open>trimStart\<close> in that range is tab, line feed,
  vertical tab, form feed, carriage return, space and no-break space.
\<close>

abbreviation LF :: char where
  "LF \<equiv> CHR 0x0A"

definition isWhiteSpace :: "char \<Rightarrow> bool" where
  "isWhiteSpace c =
     (c = CHR 0x09 \<or> c = CHR 0x0A \<or> c = CHR 0x0B \<or> c = CHR 0x0C \<or> c = CHR 0x0D
      \<or> c = CHR 0x20 \<or> c = CHR 0xA0)"

definition trimStart :: "string \<Rightarrow> string" where
  "trimStart str = dropWhile isWhiteSpace str"

definition trimEnd :: "string \<Rightarrow> string" where
  "trimEnd str = rev (dropWhile isWhiteSpace (rev str))"

definition trim :: "string \<Rightarrow> string" where
  "trim str = trimEnd (trimStart str)"

text \<open>\<open>str.split(sep)\<close> for a separator of one character: never the empty list.\<close>

fun js_split :: "char \<Rightarrow> string \<Rightarrow> string list" where
  "js_split sep [] = [[]]"
| "js_split sep (c # cs) =
     (if c = sep then [] # js_split sep cs
      else (case js_split sep cs of
              [] \<Rightarrow> [[c]]
            | line # rest \<Rightarrow> (c # line) # rest))"

fun js_join :: "string \<Rightarrow> string list \<Rightarrow> string" where
  "js_join sep [] = []"
| "js_join sep [line] = line"
| "js_join sep (line # next # rest) = line @ sep @ js_join sep (next # rest)"

text \<open>
  A stringifier returns a string or throws. \<open>#convertToString\<close> takes it as its argument
  \<open>toStringFunction\<close>; the two template literals are written out, line feeds included.
\<close>

type_synonym stringifier = "val \<Rightarrow> val + string"

definition Result_convertToString :: "stringifier \<Rightarrow> Result \<Rightarrow> exn + string" where
  "Result_convertToString toStringFunction r =
     (if Result_isSuccess r then
        (case Result_unwrap r of
           Inl x \<Rightarrow> Inl x
         | Inr v \<Rightarrow>
             (case toStringFunction v of
                Inl t \<Rightarrow> Inl (Thrown t)
              | Inr str \<Rightarrow>
                  (let valueString =
                         trimStart (js_join [LF] (map (\<lambda>line. ''    '' @ line) (js_split LF str)))
                   in Inr (trim ([LF] @ ''Result{'' @ [LF] @ ''  Success{'' @ [LF]
                                 @ ''    value: '' @ valueString @ '','' @ [LF]
                                 @ ''  }'' @ [LF] @ ''}'' @ [LF] @ ''        '')))))
      else if Result_isFailure r then
        (case Result_unwrapFailure r of
           Inl x \<Rightarrow> Inl x
         | Inr error \<Rightarrow>
             (case toStringFunction error of
                Inl t \<Rightarrow> Inl (Thrown t)
              | Inr str \<Rightarrow>
                  (let errorString =
                         trimStart (js_join [LF] (map (\<lambda>line. ''    '' @ line) (js_split LF str)))
                   in Inr (trim ([LF] @ ''Result{'' @ [LF] @ ''  Failure{'' @ [LF]
                                 @ ''    error: '' @ errorString @ '','' @ [LF]
                                 @ ''  }'' @ [LF] @ ''}'' @ [LF] @ ''        '')))))
      else Inl (UnreachableCodeError ''Reached an unreachable code path''))"

text \<open>
  \<open>toString\<close> gives \<open>#convertToString\<close> the function \<open>(value) => `${value}`\<close>. The
  conversion of a value to a string by a template literal belongs to the language (it calls
  the \<open>toString\<close> of an object, and throws on a symbol): it is the parameter \<open>template\<close>.
\<close>

definition Result_toString :: "stringifier \<Rightarrow> Result \<Rightarrow> exn + string" where
  "Result_toString template r = Result_convertToString (\<lambda>v. template v) r"

text \<open>
  \<open>utilities/node-js-util-inspect.ts\<close> exports \<open>inspect\<close> of \<open>node:util\<close> (the parameter
  \<open>util_inspect\<close>) if its own import of that module succeeded (\<open>imported\<close>), and the
  function that returns the empty string otherwise. The method of \<open>Result\<close> under the symbol
  \<open>nodejs.util.inspect.custom\<close> gives it to \<open>#convertToString\<close>.
\<close>

definition nodeJsUtilInspect :: "bool \<Rightarrow> stringifier \<Rightarrow> stringifier" where
  "nodeJsUtilInspect imported util_inspect v = (if imported then util_inspect v else Inr [])"

definition Result_customInspect :: "bool \<Rightarrow> stringifier \<Rightarrow> Result \<Rightarrow> exn + string" where
  "Result_customInspect imported util_inspect r =
     Result_convertToString (\<lambda>v. nodeJsUtilInspect imported util_inspect v) r"

definition Maybe_toString :: "stringifier \<Rightarrow> Maybe \<Rightarrow> exn + string" where
  "Maybe_toString template m =
     (if Maybe_isSomething m then
        (case Maybe_unwrap m of
           Inl x \<Rightarrow> Inl x
         | Inr v \<Rightarrow>
             (case template v of
                Inl t \<Rightarrow> Inl (Thrown t)
              | Inr str \<Rightarrow> Inr (''Maybe{ Something{ value: '' @ str @ '' } }'')))
      else if Maybe_isNothing m then Inr ''Maybe{ Nothing }''
      else Inl (UnreachableCodeError ''Reached an unreachable code path''))"

text \<open>The method of \<open>Maybe\<close> under \<open>util.inspect.custom\<close> returns \<open>`${this}`\<close>.\<close>

definition Maybe_customInspect :: "stringifier \<Rightarrow> Maybe \<Rightarrow> exn + string" where
  "Maybe_customInspect template m = Maybe_toString template m"

text \<open>
  For the statement of what \<open>#convertToString\<close> shows of a payload: the text of the
  stringifier with four spaces put after each of its line feeds, so that its later lines
  stand under the first one inside the block.
\<close>

definition indent_lines :: "string \<Rightarrow> string" where
  "indent_lines str = concat (map (\<lambda>c. if c = LF then LF # ''    '' else [c]) str)"

section \<open>What the caller brings\<close>

text \<open>
  The spy of the tests (\<open>spy()\<close> of sinon): it appends its argument to the list of the calls
  it has received and returns \<open>undefined\<close>.
\<close>

definition spy :: "val list fn" where
  "spy x calls = (Inr Undefined, calls @ [x])"

text \<open>A stringifier for strings; it shows any other value as a question mark.\<close>

definition show_string :: stringifier where
  "show_string v = (case v of String str \<Rightarrow> Inr str | _ \<Rightarrow> Inr ''?'')"

text \<open>
  \<open>returns P g x s\<close>: the call of \<open>g\<close> on \<open>x\<close> in the world \<open>s\<close>, if it returns at all,
  returns a value that satisfies \<open>P\<close>. With \<open>isResult\<close> or \<open>is_boolean\<close> for \<open>P\<close> this is
  the declared return type of a callback.
\<close>

definition returns :: "(val \<Rightarrow> bool) \<Rightarrow> 's fn \<Rightarrow> val \<Rightarrow> 's \<Rightarrow> bool" where
  "returns P g x s = (case fst (g x s) of Inl t \<Rightarrow> True | Inr y \<Rightarrow> P y)"

fun is_boolean :: "val \<Rightarrow> bool" where
  "is_boolean (Boolean b) = True"
| "is_boolean v = False"

text \<open>An absent value: \<open>undefined\<close> or \<open>null\<close>.\<close>

fun absent :: "val \<Rightarrow> bool" where
  "absent Undefined = True"
| "absent Null = True"
| "absent v = False"

text \<open>
  The exceptions that a method raises itself, as opposed to the one a function of the caller
  threw and the method let through.
\<close>

fun own_exception :: "exn \<Rightarrow> bool" where
  "own_exception (Thrown t) = False"
| "own_exception e = True"

definition raises_itself :: "exn + 'a \<Rightarrow> bool" where
  "raises_itself outcome = (case outcome of Inl e \<Rightarrow> own_exception e | Inr a \<Rightarrow> False)"

section \<open>Run-time checks\<close>

lemma typeof_undefined_iff: "(typeof v = ''undefined'') = (v = Undefined)"
  by (cases v) simp_all

lemma typeof_boolean_iff: "(typeof v = ''boolean'') = is_boolean v"
  by (cases v) simp_all

lemma absent_iff: "absent v = (v = Undefined \<or> v = Null)"
  by (cases v) simp_all

lemma failure_strict:
  "assert_strict_imported h \<Longrightarrow>
   failure h e = (if absent e then Inl AssertionError else Inr (Failure e))"
  by (simp add: failure_def assert_def typeof_undefined_iff absent_iff Failure_make_def)

lemma failure_present: "\<not> absent e \<Longrightarrow> failure h e = Inr (Failure e)"
  by (simp add: failure_def assert_def typeof_undefined_iff absent_iff Failure_make_def)

lemma failure_cases: "failure h e = Inl AssertionError \<or> failure h e = Inr (Failure e)"
  by (simp add: failure_def assert_def Failure_make_def)

lemma returnsD: "returns P g x s \<Longrightarrow> g x s = (Inr y, s') \<Longrightarrow> P y"
  by (simp add: returns_def)

text \<open>
  The checks are there: outside the declared types they fire, on a host that has
  \<open>node:assert/strict\<close>.
\<close>

lemma assertion_fires_outside_declared_types:
  "Result_and node_host r (Number 1) = Inl AssertionError
   \<and> Result_andThen node_host r (NotCallable (Number 1)) s = (Inl AssertionError, s)
   \<and> fst (Result_andThen node_host (Success v) (Callable (\<lambda>x s. (Inr (Number 1), s))) s)
         = Inl AssertionError
   \<and> fst (Result_isSuccessAnd node_host (Success v) (Callable (\<lambda>x s. (Inr (Number 1), s))) s)
         = Inl AssertionError"
  by (simp add: Result_and_def Result_andThen_def Result_isSuccessAnd_def assert_def)

section \<open>Construction and extraction\<close>

text \<open>
  C2. For every value \<open>v\<close>, \<open>something(v)\<close> is a \<open>Something\<close>: \<open>isSomething()\<close> is true,
  \<open>isNothing()\<close> is false and \<open>unwrap()\<close> returns \<open>v\<close>. \<open>success(v).getSuccess().unwrap()\<close>
  returns \<open>v\<close> and \<open>success(v).getFailure()\<close> is a \<open>Nothing\<close>. Each factory produces the
  variant it is named after: \<open>something\<close> a \<open>Something\<close>, \<open>nothing\<close> the \<open>Nothing\<close>,
  \<open>success\<close> a \<open>Success\<close>, and \<open>failure\<close> a \<open>Failure\<close> of \<open>e\<close> for every \<open>e\<close> that is
  not absent, on every host; for the other \<open>e\<close> it makes that \<open>Failure\<close> or raises, and never
  makes anything else.
\<close>

theorem factories_produce_their_variant:
  "Maybe_isSomething (something v)
   \<and> Maybe_isNothing (something v) = False
   \<and> Maybe_unwrap (something v) = Inr v
   \<and> Maybe_unwrap (Result_getSuccess (success v)) = Inr v
   \<and> Maybe_isNothing (Result_getFailure (success v))
   \<and> something v = Something v
   \<and> nothing = Nothing
   \<and> success v = Success v
   \<and> (failure h e = Inl AssertionError \<or> failure h e = Inr (Failure e))
   \<and> (\<not> absent e \<longrightarrow>
         failure h e = Inr (Failure e)
         \<and> Result_isFailure (Failure e)
         \<and> Result_isSuccess (Failure e) = False)
   \<and> Result_isSuccess (success v)
   \<and> Result_isFailure (success v) = False
   \<and> Maybe_isNothing nothing
   \<and> Maybe_isSomething nothing = False"
  by (simp add: something_def success_def Success_make_def nothing_def Something_make_def
      Nothing_make_def failure_cases failure_present)

theorem factories_produce_their_variant_witness:
  "failure node_host (String ''boom'') = Inr (Failure (String ''boom''))
   \<and> failure host_without_assert (Number 0) = Inr (Failure (Number 0))
   \<and> something (Number 42) = Something (Number 42)
   \<and> success Undefined = Success Undefined"
  using factories_produce_their_variant [of "Number 42" node_host "String ''boom''"]
        factories_produce_their_variant [of Undefined host_without_assert "Number 0"]
  by simp

text \<open>
  C4. \<open>unwrap()\<close> on \<open>nothing()\<close> or on a \<open>Failure\<close>, and \<open>unwrapFailure()\<close> on a
  \<open>Success\<close>, raise \<open>ImproperUnwrapError\<close> with a fixed message that names the variant.
  \<open>expect(msg)\<close> on \<open>nothing()\<close> or on a \<open>Failure\<close>, and \<open>expectFailure(msg)\<close> on a
  \<open>Success\<close>, raise \<open>ExpectationError\<close> with exactly the string \<open>msg\<close>. On the other
  variant each of the six returns the payload.
\<close>

theorem wrong_variant_extraction_raises:
  "Maybe_unwrap nothing = Inl (ImproperUnwrapError ''Attempted to unwrap a `Nothing` value'')
   \<and> Result_unwrap (Failure e) = Inl (ImproperUnwrapError ''Attempted to unwrap a `Failure` value'')
   \<and> Result_unwrapFailure (success v) = Inl (ImproperUnwrapError ''Attempted to unwrap a `Success` value'')
   \<and> Maybe_expect nothing (String msg) = Inl (ExpectationError (String msg))
   \<and> Result_expect h (Failure e) (String msg) = Inl (ExpectationError (String msg))
   \<and> Result_expectFailure h (success v) (String msg) = Inl (ExpectationError (String msg))
   \<and> Maybe_unwrap (something v) = Inr v
   \<and> Maybe_expect (something v) (String msg) = Inr v
   \<and> Result_unwrap (success v) = Inr v
   \<and> Result_expect h (success v) (String msg) = Inr v
   \<and> Result_unwrapFailure (Failure e) = Inr e
   \<and> Result_expectFailure h (Failure e) (String msg) = Inr e"
  by (simp add: something_def nothing_def Something_make_def Nothing_make_def success_def
      Success_make_def Result_expect_def Result_expectFailure_def assert_def)

section \<open>Laws of the Maybe combinators\<close>

text \<open>
  C6. \<open>map\<close> composes: \<open>something(v).map(f).map(g)\<close> and \<open>something(v).map(x => g(f(x)))\<close>
  have the same outcome and leave the world of the caller in the same state, whatever \<open>f\<close>
  and \<open>g\<close> do. \<open>map\<close> keeps the variant: on \<open>something(v)\<close> it calls \<open>f\<close> on \<open>v\<close> and
  returns a \<open>Something\<close> of what \<open>f\<close> returned; on \<open>nothing()\<close> it returns \<open>nothing()\<close>
  and the world is untouched, so its argument was not invoked.
\<close>

theorem map_composes:
  "and_then (Maybe_map (something v) (Callable f)) (\<lambda>m. Maybe_map m (Callable g)) s
     = Maybe_map (something v) (Callable (compose f g)) s
   \<and> Maybe_map (something v) (Callable f) s =
       (case f v s of
          (Inl t, s') \<Rightarrow> (Inl (Thrown t), s')
        | (Inr y, s') \<Rightarrow> (Inr (something y), s'))
   \<and> Maybe_map nothing a s = (Inr nothing, s)"
  by (simp add: something_def nothing_def Something_make_def Nothing_make_def and_then_def
      compose_def split: prod.splits sum.splits)

text \<open>
  C7. For every Maybe \<open>x\<close>: \<open>nothing().and(x)\<close> is \<open>nothing()\<close> and \<open>something(v).and(x)\<close>
  is \<open>x\<close>; \<open>something(v).or(x)\<close> is \<open>something(v)\<close> and \<open>nothing().or(x)\<close> is \<open>x\<close>.
\<close>

theorem and_or_absorption:
  "Maybe_and nothing (MaybeV x) = MaybeV nothing
   \<and> Maybe_and (something v) (MaybeV x) = MaybeV x
   \<and> Maybe_or (something v) (MaybeV x) = MaybeV (something v)
   \<and> Maybe_or nothing (MaybeV x) = MaybeV x"
  by (simp add: something_def nothing_def Something_make_def Nothing_make_def)

section \<open>Callbacks are invoked once, or not at all\<close>

text \<open>
  C8. \<open>something(v).inspect(f)\<close> takes the world of the caller through one call of \<open>f\<close> on
  \<open>v\<close> and returns the receiver; with the spy for \<open>f\<close>, the calls recorded grow by exactly
  \<open>v\<close>. \<open>nothing().inspect(f)\<close> returns the receiver and leaves the world as it was, for every
  argument. The same holds of \<open>inspect\<close> on a \<open>Success\<close> and of \<open>inspectFailure\<close> on a
  \<open>Failure\<close>, and on the other variant each returns the receiver without a call. The
  container returned is the receiver in every case. (What \<open>failure(e)\<close> makes, if it makes
  a container, is \<open>Failure e\<close>: the last line.)
\<close>

theorem inspect_calls_once:
  "Maybe_inspect (something v) (Callable g) s =
       (case g v s of
          (Inl t, s') \<Rightarrow> (Inl (Thrown t), s')
        | (Inr u, s') \<Rightarrow> (Inr (something v), s'))
   \<and> Maybe_inspect (something v) (Callable spy) calls = (Inr (something v), calls @ [v])
   \<and> Maybe_inspect nothing a s = (Inr nothing, s)
   \<and> Result_inspect h (success v) (Callable g) s =
       (case g v s of
          (Inl t, s') \<Rightarrow> (Inl (Thrown t), s')
        | (Inr u, s') \<Rightarrow> (Inr (success v), s'))
   \<and> Result_inspect h (success v) (Callable spy) calls = (Inr (success v), calls @ [v])
   \<and> Result_inspect h (Failure e) (Callable g) s = (Inr (Failure e), s)
   \<and> Result_inspectFailure h (Failure e) (Callable g) s =
       (case g e s of
          (Inl t, s') \<Rightarrow> (Inl (Thrown t), s')
        | (Inr u, s') \<Rightarrow> (Inr (Failure e), s'))
   \<and> Result_inspectFailure h (Failure e) (Callable spy) calls = (Inr (Failure e), calls @ [e])
   \<and> Result_inspectFailure h (success v) (Callable g) s = (Inr (success v), s)
   \<and> (failure h e = Inl AssertionError \<or> failure h e = Inr (Failure e))"
  by (simp add: something_def nothing_def Something_make_def Nothing_make_def success_def
      Success_make_def spy_def failure_cases Result_inspect_def Result_inspectFailure_def assert_def split: prod.splits sum.splits)

section \<open>The check of the error value\<close>

text \<open>
  C1, as the code has it. On a host where \<open>node:assert/strict\<close> was imported, \<open>failure(e)\<close>
  with \<open>e\<close> absent (\<open>undefined\<close> or \<open>null\<close>) raises and makes no container. On every host,
  \<open>failure(e)\<close> with \<open>e\<close> not absent makes a \<open>Failure\<close> whose \<open>getFailure().unwrap()\<close>
  is \<open>e\<close> and whose \<open>getSuccess()\<close> is a \<open>Nothing\<close>. Likewise \<open>mapFailure(f)\<close> on a
  \<open>Failure\<close> of \<open>d\<close>, when \<open>f(d)\<close> returns \<open>d'\<close>: it raises, after the call, if \<open>d'\<close> is
  absent and the host has the module, and returns a \<open>Failure\<close> of \<open>d'\<close> if \<open>d'\<close> is not
  absent.
\<close>

theorem failure_checks_at_construction:
  "(assert_strict_imported h \<and> absent e \<longrightarrow> failure h e = Inl AssertionError)
   \<and> (\<not> absent e \<longrightarrow>
         failure h e = Inr (Failure e)
         \<and> Maybe_unwrap (Result_getFailure (Failure e)) = Inr e
         \<and> Maybe_isNothing (Result_getSuccess (Failure e)))
   \<and> (assert_strict_imported h \<and> f d s = (Inr d', s') \<and> absent d' \<longrightarrow>
         Result_mapFailure h (Failure d) (Callable f) s = (Inl AssertionError, s'))
   \<and> (f d s = (Inr d', s') \<and> \<not> absent d' \<longrightarrow>
         Result_mapFailure h (Failure d) (Callable f) s = (Inr (Failure d'), s'))"
  by (auto simp add: failure_strict failure_present something_def nothing_def
      Something_make_def Nothing_make_def Result_mapFailure_def assert_def typeof_undefined_iff absent_iff Failure_make_def)

theorem failure_checks_at_construction_witness:
  "failure node_host Null = Inl AssertionError
   \<and> failure node_host (String ''boom'') = Inr (Failure (String ''boom''))
   \<and> Result_mapFailure node_host (Failure (String ''boom''))
        (Callable (\<lambda>x s. (Inr Undefined, s))) (0::nat) = (Inl AssertionError, 0)
   \<and> Result_mapFailure node_host (Failure (String ''boom''))
        (Callable (\<lambda>x s. (Inr (Number 7), Suc s))) (0::nat) = (Inr (Failure (Number 7)), 1)"
  using failure_checks_at_construction
          [where h = node_host and e = Null and d = "String ''boom''"
             and f = "\<lambda>x s. (Inr Undefined, s)" and s = "0::nat" and d' = Undefined and s' = 0]
        failure_checks_at_construction
          [where h = node_host and e = "String ''boom''" and d = "String ''boom''"
             and f = "\<lambda>x s. (Inr (Number 7), Suc s)" and s = "0::nat" and d' = "Number 7"
             and s' = 1]
  by simp

text \<open>
  C1 as it is stated fails on the host where the library loads and the import of
  \<open>node:assert/strict\<close> alone has failed, so that \<open>assert\<close> is the function that does
  nothing: \<open>failure(undefined)\<close> returns a \<open>Failure\<close> that holds \<open>undefined\<close>.
\<close>

theorem failure_without_assert_keeps_absent_error:
  "absent Undefined \<and> failure host_without_assert Undefined = Inr (Failure Undefined)"
  by (simp add: failure_def assert_def Failure_make_def)

text \<open>
  C9, as the code has it. \<open>nothing().getSuccessOr(e)\<close> is \<open>failure(e)\<close>; so on a host where
  \<open>node:assert/strict\<close> was imported it raises for an absent \<open>e\<close> and makes no container.
\<close>

theorem getSuccessOr_absent_error_raises:
  "Maybe_getSuccessOr h nothing e = failure h e
   \<and> (assert_strict_imported h \<and> absent e \<longrightarrow>
         Maybe_getSuccessOr h nothing e = Inl AssertionError)"
  by (simp add: nothing_def Nothing_make_def failure_strict)

theorem getSuccessOr_absent_error_raises_witness:
  "Maybe_getSuccessOr node_host nothing Undefined = Inl AssertionError"
  using getSuccessOr_absent_error_raises [of node_host Undefined]
  by (simp add: failure_strict)

text \<open>
  C9 as it is stated fails on the same host, where \<open>node:assert/strict\<close> alone could not be
  imported, here for \<open>null\<close>.
\<close>

theorem getSuccessOr_without_assert_keeps_absent_error:
  "absent Null \<and> Maybe_getSuccessOr host_without_assert nothing Null = Inr (Failure Null)"
  by (simp add: nothing_def Nothing_make_def failure_def assert_def Failure_make_def)

text \<open>
  C5, as the code has it. For every value \<open>v\<close> and every \<open>e\<close>,
  \<open>something(v).getSuccessOr(e).getSuccess().unwrap()\<close> returns \<open>v\<close>. For every \<open>e\<close> that
  is not absent, \<open>nothing().getSuccessOr(e).unwrapFailure()\<close> returns \<open>e\<close>.
\<close>

theorem getSuccessOr_round_trip:
  "then_do (Maybe_getSuccessOr h (something v) e) (\<lambda>r. Maybe_unwrap (Result_getSuccess r)) = Inr v
   \<and> (\<not> absent e \<longrightarrow>
         then_do (Maybe_getSuccessOr h nothing e) Result_unwrapFailure = Inr e)"
  by (simp add: then_do_def something_def nothing_def Something_make_def Nothing_make_def
      success_def Success_make_def failure_present)

theorem getSuccessOr_round_trip_witness:
  "then_do (Maybe_getSuccessOr node_host (something (Number 42)) (String ''gone''))
       (\<lambda>r. Maybe_unwrap (Result_getSuccess r)) = Inr (Number 42)
   \<and> then_do (Maybe_getSuccessOr node_host nothing (String ''gone'')) Result_unwrapFailure
       = Inr (String ''gone'')"
  using getSuccessOr_round_trip [of node_host "Number 42" "String ''gone''"]
  by simp

text \<open>
  C5 as it is stated fails on Node.js for \<open>e = undefined\<close>: the conversion raises, and
  \<open>unwrapFailure\<close> is never reached.
\<close>

theorem getSuccessOr_absent_error_no_round_trip:
  "then_do (Maybe_getSuccessOr node_host nothing Undefined) Result_unwrapFailure
     = Inl AssertionError"
  by (simp add: then_do_def nothing_def Nothing_make_def failure_def assert_def)

section \<open>The combinators of Result do not raise\<close>

text \<open>
  C3. Let the arguments have their declared types: \<open>other\<close> is a Result, every callback is
  a function, the callback of \<open>andThen\<close> returns a Result (\<open>g\<close>), a predicate returns a
  boolean (\<open>p\<close>), the callback of \<open>mapFailure\<close> returns a value that is not absent (\<open>m\<close>).
  Then on every host and in every world each combinator is total and raises nothing of its
  own. \<open>and\<close> and \<open>or\<close> return the receiver or \<open>other\<close>. \<open>andThen\<close>, \<open>inspect\<close>,
  \<open>inspectFailure\<close>, \<open>isFailureAnd\<close>, \<open>isSuccessAnd\<close>, \<open>map\<close> and \<open>mapFailure\<close> return
  without a call on the variant that does not qualify; on the other they call the callback
  once on the payload and either return (what the callback returned, the receiver, or a
  container of what it returned) or let through exactly what the callback threw, no
  assertion firing. \<open>getFailure\<close>, \<open>getSuccess\<close>, \<open>isFailure\<close> and \<open>isSuccess\<close> return on
  both variants. In particular no result is an exception of the library's own, on any
  Result \<open>r\<close>.
\<close>

theorem Result_combinators_do_not_raise:
  assumes g: "\<And>x s. returns isResult g x s"
    and p: "\<And>x s. returns is_boolean p x s"
    and m: "\<And>x s. returns (\<lambda>y. \<not> absent y) m x s"
  shows "Result_and h (Success v) (ResultV other) = Inr (ResultV other)
   \<and> Result_and h (Failure e) (ResultV other) = Inr (ResultV (Failure e))
   \<and> Result_or h (Success v) (ResultV other) = Inr (ResultV (Success v))
   \<and> Result_or h (Failure e) (ResultV other) = Inr (ResultV other)
   \<and> Result_andThen h (Success v) (Callable g) s =
       (case g v s of
          (Inl t, s') \<Rightarrow> (Inl (Thrown t), s')
        | (Inr y, s') \<Rightarrow> (Inr y, s'))
   \<and> Result_andThen h (Failure e) (Callable g) s = (Inr (ResultV (Failure e)), s)
   \<and> Result_inspect h (Success v) (Callable f) s =
       (case f v s of
          (Inl t, s') \<Rightarrow> (Inl (Thrown t), s')
        | (Inr u, s') \<Rightarrow> (Inr (Success v), s'))
   \<and> Result_inspect h (Failure e) (Callable f) s = (Inr (Failure e), s)
   \<and> Result_inspectFailure h (Success v) (Callable f) s = (Inr (Success v), s)
   \<and> Result_inspectFailure h (Failure e) (Callable f) s =
       (case f e s of
          (Inl t, s') \<Rightarrow> (Inl (Thrown t), s')
        | (Inr u, s') \<Rightarrow> (Inr (Failure e), s'))
   \<and> Result_isFailureAnd h (Success v) (Callable p) s = (Inr (Boolean False), s)
   \<and> Result_isFailureAnd h (Failure e) (Callable p) s =
       (case p e s of
          (Inl t, s') \<Rightarrow> (Inl (Thrown t), s')
        | (Inr b, s') \<Rightarrow> (Inr b, s'))
   \<and> Result_isSuccessAnd h (Success v) (Callable p) s =
       (case p v s of
          (Inl t, s') \<Rightarrow> (Inl (Thrown t), s')
        | (Inr b, s') \<Rightarrow> (Inr b, s'))
   \<and> Result_isSuccessAnd h (Failure e) (Callable p) s = (Inr (Boolean False), s)
   \<and> Result_map h (Success v) (Callable f) s =
       (case f v s of
          (Inl t, s') \<Rightarrow> (Inl (Thrown t), s')
        | (Inr y, s') \<Rightarrow> (Inr (Success y), s'))
   \<and> Result_map h (Failure e) (Callable f) s = (Inr (Failure e), s)
   \<and> Result_mapFailure h (Success v) (Callable m) s = (Inr (Success v), s)
   \<and> Result_mapFailure h (Failure e) (Callable m) s =
       (case m e s of
          (Inl t, s') \<Rightarrow> (Inl (Thrown t), s')
        | (Inr y, s') \<Rightarrow> (Inr (Failure y), s'))
   \<and> Result_getFailure (Success v) = Nothing
   \<and> Result_getFailure (Failure e) = Something e
   \<and> Result_getSuccess (Success v) = Something v
   \<and> Result_getSuccess (Failure e) = Nothing
   \<and> Result_isFailure (Success v) = False
   \<and> Result_isFailure (Failure e)
   \<and> Result_isSuccess (Success v)
   \<and> Result_isSuccess (Failure e) = False
   \<and> \<not> raises_itself (Result_and h r (ResultV other))
   \<and> \<not> raises_itself (Result_or h r (ResultV other))
   \<and> \<not> raises_itself (fst (Result_andThen h r (Callable g) s))
   \<and> \<not> raises_itself (fst (Result_inspect h r (Callable f) s))
   \<and> \<not> raises_itself (fst (Result_inspectFailure h r (Callable f) s))
   \<and> \<not> raises_itself (fst (Result_isFailureAnd h r (Callable p) s))
   \<and> \<not> raises_itself (fst (Result_isSuccessAnd h r (Callable p) s))
   \<and> \<not> raises_itself (fst (Result_map h r (Callable f) s))
   \<and> \<not> raises_itself (fst (Result_mapFailure h r (Callable m) s))"
proof -
  have ands: "Result_and h (Success v) (ResultV other) = Inr (ResultV other)"
    "Result_and h (Failure e) (ResultV other) = Inr (ResultV (Failure e))"
    "Result_or h (Success v) (ResultV other) = Inr (ResultV (Success v))"
    "Result_or h (Failure e) (ResultV other) = Inr (ResultV other)"
    by (simp_all add: Result_and_def Result_or_def assert_def)
  have andThens: "Result_andThen h (Success v) (Callable g) s =
       (case g v s of
          (Inl t, s') \<Rightarrow> (Inl (Thrown t), s')
        | (Inr y, s') \<Rightarrow> (Inr y, s'))"
    "Result_andThen h (Failure e) (Callable g) s = (Inr (ResultV (Failure e)), s)"
    using g [of v s]
    by (auto simp add: Result_andThen_def assert_def split: prod.splits sum.splits
        dest: returnsD)
  have inspects: "Result_inspect h (Success v) (Callable f) s =
       (case f v s of
          (Inl t, s') \<Rightarrow> (Inl (Thrown t), s')
        | (Inr u, s') \<Rightarrow> (Inr (Success v), s'))"
    "Result_inspect h (Failure e) (Callable f) s = (Inr (Failure e), s)"
    "Result_inspectFailure h (Success v) (Callable f) s = (Inr (Success v), s)"
    "Result_inspectFailure h (Failure e) (Callable f) s =
       (case f e s of
          (Inl t, s') \<Rightarrow> (Inl (Thrown t), s')
        | (Inr u, s') \<Rightarrow> (Inr (Failure e), s'))"
    by (simp_all add: Result_inspect_def Result_inspectFailure_def assert_def
        split: prod.splits sum.splits)
  have preds: "Result_isFailureAnd h (Success v) (Callable p) s = (Inr (Boolean False), s)"
    "Result_isFailureAnd h (Failure e) (Callable p) s =
       (case p e s of
          (Inl t, s') \<Rightarrow> (Inl (Thrown t), s')
        | (Inr b, s') \<Rightarrow> (Inr b, s'))"
    "Result_isSuccessAnd h (Success v) (Callable p) s =
       (case p v s of
          (Inl t, s') \<Rightarrow> (Inl (Thrown t), s')
        | (Inr b, s') \<Rightarrow> (Inr b, s'))"
    "Result_isSuccessAnd h (Failure e) (Callable p) s = (Inr (Boolean False), s)"
    using p [of e s] p [of v s]
    by (auto simp add: Result_isFailureAnd_def Result_isSuccessAnd_def assert_def
        typeof_boolean_iff split: prod.splits sum.splits dest: returnsD)
  have maps: "Result_map h (Success v) (Callable f) s =
       (case f v s of
          (Inl t, s') \<Rightarrow> (Inl (Thrown t), s')
        | (Inr y, s') \<Rightarrow> (Inr (Success y), s'))"
    "Result_map h (Failure e) (Callable f) s = (Inr (Failure e), s)"
    by (simp_all add: Result_map_def assert_def Success_make_def split: prod.splits sum.splits)
  have mapFailures: "Result_mapFailure h (Success v) (Callable m) s = (Inr (Success v), s)"
    "Result_mapFailure h (Failure e) (Callable m) s =
       (case m e s of
          (Inl t, s') \<Rightarrow> (Inl (Thrown t), s')
        | (Inr y, s') \<Rightarrow> (Inr (Failure y), s'))"
    using m [of e s]
    by (auto simp add: Result_mapFailure_def assert_def Failure_make_def typeof_undefined_iff
        absent_iff split: prod.splits sum.splits dest: returnsD)
  have pure: "Result_getFailure (Success v) = Nothing"
    "Result_getFailure (Failure e) = Something e"
    "Result_getSuccess (Success v) = Something v"
    "Result_getSuccess (Failure e) = Nothing"
    by (simp_all add: nothing_def something_def Nothing_make_def Something_make_def)
  have 1: "\<not> raises_itself (Result_and h r (ResultV other))"
    by (simp add: raises_itself_def Result_and_def assert_def)
  have 2: "\<not> raises_itself (Result_or h r (ResultV other))"
    by (simp add: raises_itself_def Result_or_def assert_def)
  have 3: "\<not> raises_itself (fst (Result_andThen h r (Callable g) s))"
    using g by (cases r) (auto simp add: raises_itself_def Result_andThen_def assert_def
        split: prod.splits sum.splits dest: returnsD)
  have 4: "\<not> raises_itself (fst (Result_inspect h r (Callable f) s))"
    by (cases r) (auto simp add: raises_itself_def Result_inspect_def assert_def
        split: prod.splits sum.splits)
  have 5: "\<not> raises_itself (fst (Result_inspectFailure h r (Callable f) s))"
    by (cases r) (auto simp add: raises_itself_def Result_inspectFailure_def assert_def
        split: prod.splits sum.splits)
  have 6: "\<not> raises_itself (fst (Result_isFailureAnd h r (Callable p) s))"
    using p by (cases r) (auto simp add: raises_itself_def Result_isFailureAnd_def assert_def
        typeof_boolean_iff split: prod.splits sum.splits dest: returnsD)
  have 7: "\<not> raises_itself (fst (Result_isSuccessAnd h r (Callable p) s))"
    using p by (cases r) (auto simp add: raises_itself_def Result_isSuccessAnd_def assert_def
        typeof_boolean_iff split: prod.splits sum.splits dest: returnsD)
  have 8: "\<not> raises_itself (fst (Result_map h r (Callable f) s))"
    by (cases r) (auto simp add: raises_itself_def Result_map_def assert_def
        split: prod.splits sum.splits)
  have 9: "\<not> raises_itself (fst (Result_mapFailure h r (Callable m) s))"
    using m by (cases r) (auto simp add: raises_itself_def Result_mapFailure_def assert_def
        typeof_undefined_iff absent_iff split: prod.splits sum.splits dest: returnsD)
  show ?thesis
    by (simp only: ands andThens inspects preds maps mapFailures pure Result_isFailure.simps
        Result_isSuccess.simps 1 2 3 4 5 6 7 8 9 simp_thms)
qed

theorem Result_combinators_do_not_raise_witness:
  "Result_and node_host (Success (Number 1)) (ResultV (Failure (String ''no'')))
     = Inr (ResultV (Failure (String ''no'')))
   \<and> Result_or node_host (Failure (String ''no'')) (ResultV (Failure (String ''no'')))
     = Inr (ResultV (Failure (String ''no'')))
   \<and> Result_andThen node_host (Success (Number 1))
        (Callable (\<lambda>x s. (Inr (ResultV (Success x)), Suc s))) (0::nat)
     = (Inr (ResultV (Success (Number 1))), 1)
   \<and> Result_isSuccessAnd node_host (Success (Number 1))
        (Callable (\<lambda>x s. (Inr (Boolean (x = Number 1)), Suc s))) (0::nat)
     = (Inr (Boolean True), 1)
   \<and> Result_map node_host (Success (Number 1)) (Callable (\<lambda>x s. (Inl x, Suc s))) (0::nat)
     = (Inl (Thrown (Number 1)), 1)
   \<and> Result_mapFailure node_host (Failure (String ''no''))
        (Callable (\<lambda>x s. (Inr (String ''mapped''), Suc s))) (0::nat)
     = (Inr (Failure (String ''mapped'')), 1)
   \<and> \<not> raises_itself (Result_and node_host (Success (Number 1)) (ResultV (Failure (String ''no''))))
   \<and> \<not> raises_itself (fst (Result_andThen node_host (Success (Number 1))
            (Callable (\<lambda>x s. (Inr (ResultV (Success x)), Suc s))) (0::nat)))
   \<and> \<not> raises_itself (fst (Result_isSuccessAnd node_host (Success (Number 1))
            (Callable (\<lambda>x s. (Inr (Boolean (x = Number 1)), Suc s))) (0::nat)))
   \<and> \<not> raises_itself (fst (Result_mapFailure node_host (Failure (String ''no''))
            (Callable (\<lambda>x s. (Inr (String ''mapped''), Suc s))) (0::nat)))"
  using Result_combinators_do_not_raise
          [where g = "\<lambda>x s. (Inr (ResultV (Success x)), Suc s)"
             and p = "\<lambda>x s. (Inr (Boolean (x = Number 1)), Suc s)"
             and m = "\<lambda>x s. (Inr (String ''mapped''), Suc s)"
             and f = "\<lambda>x s. (Inl x, Suc s)"
             and h = node_host and r = "Success (Number 1)" and s = "0::nat"
             and v = "Number 1" and e = "String ''no''"
             and other = "Failure (String ''no'')"]
        Result_combinators_do_not_raise
          [where g = "\<lambda>x s. (Inr (ResultV (Success x)), Suc s)"
             and p = "\<lambda>x s. (Inr (Boolean (x = Number 1)), Suc s)"
             and m = "\<lambda>x s. (Inr (String ''mapped''), Suc s)"
             and f = "\<lambda>x s. (Inl x, Suc s)"
             and h = node_host and r = "Failure (String ''no'')" and s = "0::nat"
             and v = "Number 1" and e = "String ''no''"
             and other = "Failure (String ''no'')"]
  by (simp add: returns_def raises_itself_def)

section \<open>The rendering\<close>

lemma js_split_not_Nil: "js_split sep str \<noteq> []"
  by (induction str) (auto split: list.splits)

text \<open>Splitting at the line feeds, prefixing each line and joining again, in one pass.\<close>

lemma js_join_indent:
  "js_join [LF] (map (\<lambda>line. pre @ line) (js_split LF str))
     = pre @ concat (map (\<lambda>c. if c = LF then LF # pre else [c]) str)"
proof (induction str)
  case Nil
  show ?case by simp
next
  case (Cons c cs)
  obtain line rest where sp: "js_split LF cs = line # rest"
    using js_split_not_Nil [of LF cs] by (cases "js_split LF cs") auto
  show ?case
  proof (cases "c = LF")
    case True
    with Cons sp show ?thesis by simp
  next
    case False
    with Cons sp show ?thesis by (cases rest) auto
  qed
qed

lemma valueString_eq:
  "trimStart (js_join [LF] (map (\<lambda>line. ''    '' @ line) (js_split LF str)))
     = trimStart (indent_lines str)"
  unfolding js_join_indent indent_lines_def by (simp add: trimStart_def isWhiteSpace_def)

lemma indent_lines_single: "LF \<notin> set str \<Longrightarrow> indent_lines str = str"
  by (induction str) (auto simp add: indent_lines_def)

text \<open>
  \<open>trim\<close> takes the first line feed and the last line of the template away, and nothing
  else, whatever stands in the middle.
\<close>

lemma trim_Success_template:
  "trim ([LF] @ ''Result{'' @ [LF] @ ''  Success{'' @ [LF] @ ''    value: '' @ body @ '','' @ [LF]
         @ ''  }'' @ [LF] @ ''}'' @ [LF] @ ''        '')
   = ''Result{'' @ [LF] @ ''  Success{'' @ [LF] @ ''    value: '' @ body @ '','' @ [LF]
     @ ''  }'' @ [LF] @ ''}''"
  by (simp add: trim_def trimStart_def trimEnd_def isWhiteSpace_def)

lemma trim_Failure_template:
  "trim ([LF] @ ''Result{'' @ [LF] @ ''  Failure{'' @ [LF] @ ''    error: '' @ body @ '','' @ [LF]
         @ ''  }'' @ [LF] @ ''}'' @ [LF] @ ''        '')
   = ''Result{'' @ [LF] @ ''  Failure{'' @ [LF] @ ''    error: '' @ body @ '','' @ [LF]
     @ ''  }'' @ [LF] @ ''}''"
  by (simp add: trim_def trimStart_def trimEnd_def isWhiteSpace_def)

lemma convertToString_Success:
  "toStringFunction v = Inr str \<Longrightarrow>
   Result_convertToString toStringFunction (Success v)
     = Inr (''Result{'' @ [LF] @ ''  Success{'' @ [LF] @ ''    value: ''
            @ trimStart (indent_lines str) @ '','' @ [LF] @ ''  }'' @ [LF] @ ''}'')"
  unfolding Result_convertToString_def
  by (simp only: Result_isSuccess.simps if_True Result_unwrap.simps sum.case Let_def
      valueString_eq trim_Success_template)

lemma convertToString_Failure:
  "toStringFunction e = Inr str \<Longrightarrow>
   Result_convertToString toStringFunction (Failure e)
     = Inr (''Result{'' @ [LF] @ ''  Failure{'' @ [LF] @ ''    error: ''
            @ trimStart (indent_lines str) @ '','' @ [LF] @ ''  }'' @ [LF] @ ''}'')"
  unfolding Result_convertToString_def
  by (simp only: Result_isSuccess.simps Result_isFailure.simps if_True if_False
      Result_unwrapFailure.simps sum.case Let_def valueString_eq trim_Failure_template)

lemma convertToString_reachable:
  "Result_convertToString toStringFunction r \<noteq> Inl (UnreachableCodeError msg)"
  by (cases r) (simp_all add: Result_convertToString_def Let_def split: sum.splits)

lemma Maybe_toString_Something:
  "template v = Inr str \<Longrightarrow>
   Maybe_toString template (Something v) = Inr (''Maybe{ Something{ value: '' @ str @ '' } }'')"
  by (simp add: Maybe_toString_def)

lemma Maybe_toString_Nothing: "Maybe_toString template Nothing = Inr ''Maybe{ Nothing }''"
  by (simp add: Maybe_toString_def)

lemma Maybe_toString_reachable: "Maybe_toString template m \<noteq> Inl (UnreachableCodeError msg)"
  by (cases m) (simp_all add: Maybe_toString_def split: sum.splits)

text \<open>
  C10. Where the conversion of the payload to a string returns \<open>str\<close>, \<open>toString\<close> of
  \<open>success(v)\<close> is the block of five lines \<open>Result{\<close>, \<open>Success{\<close> (two spaces in),
  \<open>value: ...,\<close> (four spaces in), \<open>}\<close>, \<open>}\<close>, and of a \<open>Failure\<close> the same block with
  \<open>Failure{\<close> and \<open>error: ...,\<close>. What is shown of the payload is \<open>str\<close> with its later
  lines indented by four spaces and its leading white space removed; for a \<open>str\<close> of one
  line that is \<open>str\<close> without its leading white space. \<open>toString\<close> of \<open>something(v)\<close> is
  \<open>Maybe{ Something{ value: str } }\<close> and of \<open>nothing()\<close> it is \<open>Maybe{ Nothing }\<close>. The
  branch that throws \<open>UnreachableCodeError\<close> is never taken, in either class.
\<close>

theorem toString_renders_block:
  "(template v = Inr str \<longrightarrow>
      Result_toString template (success v)
        = Inr (''Result{'' @ [LF] @ ''  Success{'' @ [LF] @ ''    value: ''
               @ trimStart (indent_lines str) @ '','' @ [LF] @ ''  }'' @ [LF] @ ''}'')
      \<and> Result_toString template (Failure v)
        = Inr (''Result{'' @ [LF] @ ''  Failure{'' @ [LF] @ ''    error: ''
               @ trimStart (indent_lines str) @ '','' @ [LF] @ ''  }'' @ [LF] @ ''}'')
      \<and> Maybe_toString template (something v)
        = Inr (''Maybe{ Something{ value: '' @ str @ '' } }''))
   \<and> Maybe_toString template nothing = Inr ''Maybe{ Nothing }''
   \<and> (LF \<notin> set str \<longrightarrow> trimStart (indent_lines str) = trimStart str)
   \<and> Result_toString template r \<noteq> Inl (UnreachableCodeError msg)
   \<and> Maybe_toString template m \<noteq> Inl (UnreachableCodeError msg)"
proof (intro conjI impI)
  assume t: "template v = Inr str"
  show "Result_toString template (success v)
        = Inr (''Result{'' @ [LF] @ ''  Success{'' @ [LF] @ ''    value: ''
               @ trimStart (indent_lines str) @ '','' @ [LF] @ ''  }'' @ [LF] @ ''}'')"
    unfolding Result_toString_def success_def Success_make_def
    by (rule convertToString_Success) (rule t)
  show "Result_toString template (Failure v)
        = Inr (''Result{'' @ [LF] @ ''  Failure{'' @ [LF] @ ''    error: ''
               @ trimStart (indent_lines str) @ '','' @ [LF] @ ''  }'' @ [LF] @ ''}'')"
    unfolding Result_toString_def by (rule convertToString_Failure) (rule t)
  show "Maybe_toString template (something v)
        = Inr (''Maybe{ Something{ value: '' @ str @ '' } }'')"
    unfolding something_def Something_make_def by (rule Maybe_toString_Something) (rule t)
next
  show "Maybe_toString template nothing = Inr ''Maybe{ Nothing }''"
    unfolding nothing_def Nothing_make_def by (rule Maybe_toString_Nothing)
next
  assume "LF \<notin> set str"
  then show "trimStart (indent_lines str) = trimStart str"
    by (simp add: indent_lines_single)
next
  show "Result_toString template r \<noteq> Inl (UnreachableCodeError msg)"
    unfolding Result_toString_def by (rule convertToString_reachable)
next
  show "Maybe_toString template m \<noteq> Inl (UnreachableCodeError msg)"
    by (rule Maybe_toString_reachable)
qed

theorem toString_renders_block_witness:
  "Result_toString show_string (success (String ''ok''))
     = Inr (''Result{'' @ [LF] @ ''  Success{'' @ [LF] @ ''    value: ok,'' @ [LF]
            @ ''  }'' @ [LF] @ ''}'')
   \<and> Result_toString show_string (Failure (String ''ok''))
     = Inr (''Result{'' @ [LF] @ ''  Failure{'' @ [LF] @ ''    error: ok,'' @ [LF]
            @ ''  }'' @ [LF] @ ''}'')
   \<and> Maybe_toString show_string (something (String ''ok''))
     = Inr ''Maybe{ Something{ value: ok } }''
   \<and> trimStart (indent_lines ''ok'') = ''ok''"
  using toString_renders_block
          [where template = show_string and v = "String ''ok''" and str = "''ok''"]
  by (simp add: show_string_def trimStart_def isWhiteSpace_def)

text \<open>
  Two renderings that show the indentation and the loss of the leading white space: a
  payload of two lines, and one that starts with two spaces.
\<close>

lemma toString_examples:
  "Result_toString show_string (success (String (''a'' @ [LF] @ ''b'')))
     = Inr (''Result{'' @ [LF] @ ''  Success{'' @ [LF] @ ''    value: a'' @ [LF] @ ''    b,'' @ [LF]
            @ ''  }'' @ [LF] @ ''}'')
   \<and> Result_toString show_string (success (String ''  a''))
     = Inr (''Result{'' @ [LF] @ ''  Success{'' @ [LF] @ ''    value: a,'' @ [LF]
            @ ''  }'' @ [LF] @ ''}'')"
  by (simp add: Result_toString_def success_def Success_make_def show_string_def
      convertToString_Success indent_lines_def trimStart_def isWhiteSpace_def)

end
